theory Spec2Isabelle
  imports Main "HOL-Library.Word"
begin

section \<open>HARQ processes of the MAC scheduler (lib/mac/sched/sched_harq.cc)\<close>

text \<open>
  The member functions of \<open>harq_proc\<close>, \<open>dl_harq_proc\<close> and \<open>ul_harq_proc\<close> are embedded
  as functions that take the process and return it updated, next to the C++ return value.
  Every counter of the file is a \<open>uint32_t\<close>, modelled as a 32-bit word: \<open>+\<close> wraps and
  \<open><\<close> is the unsigned comparison.
\<close>

type_synonym u32 = "32 word"

subsection \<open>Data\<close>

text \<open>
  Modelled from the spec: the class declarations live in the header \<open>sched_harq.h\<close>, which
  is not among the sources. The fields are those the member functions read and write; the
  state enumeration, the single transport block per process and the field list of \<open>tb_t\<close>
  follow section 3 of the specification. The enumerators are spelled \<open>empty\<close>,
  \<open>waiting_ack\<close> and \<open>pending_retx\<close> in the source.
\<close>

datatype state_t = empty | waiting_ack | pending_retx

record tb_t =
  state :: state_t
  ack_state :: bool
  ndi :: bool
  n_rtx :: u32
  mcs :: u32
  tbs :: u32

text \<open>
  Modelled from the spec: \<open>prb_grant\<close> is declared in a header that is not among the
  sources. A grant is either a type-0 allocation, a bitmap of resource-block groups whose
  \<open>count()\<close> is the number of groups set, or a type-1 allocation, an interval of
  contiguous PRBs whose \<open>length()\<close> is \<open>stop - start\<close>.
\<close>

datatype prb_grant = alloc_type0 "bool list" | alloc_type1 u32 u32

fun is_alloc_type0 :: "prb_grant \<Rightarrow> bool" where
  "is_alloc_type0 (alloc_type0 bits) = True"
| "is_alloc_type0 (alloc_type1 start stop) = False"

definition is_alloc_type1 :: "prb_grant \<Rightarrow> bool" where
  "is_alloc_type1 g = (\<not> is_alloc_type0 g)"

text \<open>
  \<open>rbgs().count()\<close> and \<open>prbs().length()\<close>. The source reads each of them only behind the
  test of the allocation type, so the value given here for the other type is never used.
\<close>

fun rbgs_count :: "prb_grant \<Rightarrow> nat" where
  "rbgs_count (alloc_type0 bits) = length (filter (\<lambda>b. b) bits)"
| "rbgs_count (alloc_type1 start stop) = 0"

fun prbs_length :: "prb_grant \<Rightarrow> u32" where
  "prbs_length (alloc_type1 start stop) = stop - start"
| "prbs_length (alloc_type0 bits) = 0"

text \<open>
  The process itself. The slot type \<open>'s\<close> stands for \<open>slot_point\<close>, whose class is not
  among the sources: its operations are parameters of the functions that use them.
\<close>

record 's harq_proc =
  pid :: u32
  max_retx :: u32
  slot_tx :: 's
  slot_ack :: 's
  prbs :: prb_grant
  tb :: tb_t

text \<open>
  Modelled from the spec: the operations of \<open>slot_point\<close> that the file uses, the
  comparison \<open>a < b\<close>, the slot distance \<open>a - b\<close> and \<open>slot_index()\<close>.
\<close>

record 's slot_point_ops =
  slot_lt :: "'s \<Rightarrow> 's \<Rightarrow> bool"
  slot_diff :: "'s \<Rightarrow> 's \<Rightarrow> int"
  slot_index :: "'s \<Rightarrow> u32"

text \<open>
  Modelled from the spec: the downlink and uplink control information, with the fields
  that \<open>fill_dci\<close> reads and writes; of the DCI formats the source names \<open>f1_0\<close> only.
\<close>

datatype dci_format = f1_0 | f1_1

record dci_dl_t =
  dl_format :: dci_format
  dl_pid :: u32
  dl_ndi :: bool
  dl_mcs :: u32
  dl_rv :: u32
  dl_harq_feedback :: u32

record dci_ul_t =
  ul_pid :: u32
  ul_ndi :: bool
  ul_mcs :: u32
  ul_rv :: u32

text \<open>A downlink process is a process with the PDU buffer that \<open>new_tx\<close> clears.\<close>

record 's dl_harq_proc =
  dl_harq :: "'s harq_proc"
  pdu :: "8 word list"

subsection \<open>Accessors\<close>

text \<open>
  Modelled from the spec: the inline accessors of the header \<open>sched_harq.h\<close>. A process
  is empty when its transport block is in state \<open>empty\<close>; \<open>nof_retx\<close> and \<open>max_nof_retx\<close>
  read the retransmission counter and the budget set by \<open>new_tx\<close>.
\<close>

definition harq_empty :: "'s harq_proc \<Rightarrow> bool" where
  "harq_empty h = (state (tb h) = empty)"

definition nof_retx :: "'s harq_proc \<Rightarrow> u32" where
  "nof_retx h = n_rtx (tb h)"

definition max_nof_retx :: "'s harq_proc \<Rightarrow> u32" where
  "max_nof_retx h = max_retx h"

subsection \<open>harq_proc\<close>

text \<open>\<open>void harq_proc::new_slot(slot_point slot_rx)\<close>\<close>

definition new_slot :: "'s slot_point_ops \<Rightarrow> 's harq_proc \<Rightarrow> 's \<Rightarrow> 's harq_proc" where
  "new_slot ops h slot_rx =
     (if harq_empty h then h
      else if slot_lt ops slot_rx (slot_ack h) then h
      else
        let h1 = (if state (tb h) = waiting_ack
                  then h\<lparr>tb := (tb h)\<lparr>state := pending_retx\<rparr>\<rparr> else h)
        in if nof_retx h1 + 1 > max_nof_retx h1
           then h1\<lparr>tb := (tb h1)\<lparr>state := empty\<rparr>\<rparr> else h1)"

text \<open>
  \<open>int harq_proc::ack_info(uint32_t tb_idx, bool ack)\<close>. The process has one transport
  block, so an index other than 0 reads outside the array: the model returns \<open>None\<close>
  there. The value returned is an \<open>int\<close>: the unsigned \<open>ack ? tbs : 0\<close> converted to a
  signed 32-bit integer.
\<close>

definition ack_info :: "'s harq_proc \<Rightarrow> u32 \<Rightarrow> bool \<Rightarrow> (int \<times> 's harq_proc) option" where
  "ack_info h tb_idx ack =
     (if tb_idx \<noteq> 0 then None
      else if harq_empty h then Some (- 1, h)
      else
        let t1 = (tb h)\<lparr>ack_state := ack\<rparr>;
            t2 = (if ack then t1\<lparr>state := empty\<rparr> else t1\<lparr>state := pending_retx\<rparr>)
        in Some (sint (if ack then tbs t2 else 0), h\<lparr>tb := t2\<rparr>))"

text \<open>\<open>void harq_proc::reset()\<close>\<close>

definition reset :: "'s harq_proc \<Rightarrow> 's harq_proc" where
  "reset h = h\<lparr>tb := (tb h)\<lparr>ack_state := False, state := empty, n_rtx := 0,
                             mcs := - 1, tbs := - 1\<rparr>\<rparr>"

text \<open>\<open>bool harq_proc::new_tx(slot_tx_, slot_ack_, grant, mcs, max_retx_)\<close>\<close>

definition new_tx ::
  "'s harq_proc \<Rightarrow> 's \<Rightarrow> 's \<Rightarrow> prb_grant \<Rightarrow> u32 \<Rightarrow> u32 \<Rightarrow> bool \<times> 's harq_proc" where
  "new_tx h slot_tx' slot_ack' grant mcs' max_retx' =
     (if \<not> harq_empty h then (False, h)
      else
        let h1 = reset h;
            h2 = h1\<lparr>max_retx := max_retx', slot_tx := slot_tx', slot_ack := slot_ack',
                    prbs := grant\<rparr>
        in (True, h2\<lparr>tb := (tb h2)\<lparr>ndi := \<not> ndi (tb h2), mcs := mcs', tbs := 0,
                                   state := waiting_ack\<rparr>\<rparr>))"

text \<open>\<open>bool harq_proc::set_tbs(uint32_t tbs)\<close> and \<open>bool harq_proc::set_mcs(uint32_t mcs)\<close>\<close>

definition set_tbs :: "'s harq_proc \<Rightarrow> u32 \<Rightarrow> bool \<times> 's harq_proc" where
  "set_tbs h tbs' =
     (if harq_empty h \<or> nof_retx h > 0 then (False, h)
      else (True, h\<lparr>tb := (tb h)\<lparr>tbs := tbs'\<rparr>\<rparr>))"

definition set_mcs :: "'s harq_proc \<Rightarrow> u32 \<Rightarrow> bool \<times> 's harq_proc" where
  "set_mcs h mcs' =
     (if harq_empty h \<or> nof_retx h > 0 then (False, h)
      else (True, h\<lparr>tb := (tb h)\<lparr>mcs := mcs'\<rparr>\<rparr>))"

text \<open>\<open>bool harq_proc::new_retx(slot_point slot_tx_, slot_point slot_ack_)\<close>\<close>

definition new_retx :: "'s harq_proc \<Rightarrow> 's \<Rightarrow> 's \<Rightarrow> bool \<times> 's harq_proc" where
  "new_retx h slot_tx' slot_ack' =
     (if state (tb h) \<noteq> pending_retx then (False, h)
      else (True, h\<lparr>slot_tx := slot_tx', slot_ack := slot_ack',
                     tb := (tb h)\<lparr>state := waiting_ack, ack_state := False,
                                  n_rtx := n_rtx (tb h) + 1\<rparr>\<rparr>))"

text \<open>\<open>bool harq_proc::new_retx(slot_tx_, slot_ack_, const prb_grant& grant)\<close>\<close>

definition new_retx_grant ::
  "'s harq_proc \<Rightarrow> 's \<Rightarrow> 's \<Rightarrow> prb_grant \<Rightarrow> bool \<times> 's harq_proc" where
  "new_retx_grant h slot_tx' slot_ack' grant =
     (if is_alloc_type0 grant \<noteq> is_alloc_type0 (prbs h)
         \<or> (is_alloc_type0 grant \<and> rbgs_count grant \<noteq> rbgs_count (prbs h))
         \<or> (is_alloc_type1 grant \<and> prbs_length grant \<noteq> prbs_length (prbs h))
      then (False, h)
      else
        case new_retx h slot_tx' slot_ack' of
          (True, h1) \<Rightarrow> (True, h1\<lparr>prbs := grant\<rparr>)
        | (False, h1) \<Rightarrow> (False, h1))"

subsection \<open>dl_harq_proc and ul_harq_proc\<close>

text \<open>The table \<open>rv_idx\<close> that both \<open>fill_dci\<close> functions declare.\<close>

definition rv_idx :: "u32 list" where
  "rv_idx = [0, 2, 3, 1]"

text \<open>\<open>void dl_harq_proc::fill_dci(dci_dl_t& dci)\<close>\<close>

definition dl_fill_dci :: "'s slot_point_ops \<Rightarrow> 's dl_harq_proc \<Rightarrow> dci_dl_t \<Rightarrow> dci_dl_t" where
  "dl_fill_dci ops d dci =
     (let h = dl_harq d;
          dci1 = dci\<lparr>dl_pid := pid h, dl_ndi := ndi (tb h), dl_mcs := mcs (tb h),
                     dl_rv := rv_idx ! unat (nof_retx h mod 4)\<rparr>
      in if dl_format dci1 = f1_0
         then dci1\<lparr>dl_harq_feedback :=
                      word_of_int (slot_diff ops (slot_ack h) (slot_tx h) - 1)\<rparr>
         else dci1\<lparr>dl_harq_feedback := slot_index ops (slot_tx h)\<rparr>)"

text \<open>\<open>bool dl_harq_proc::new_tx(slot_tx, slot_ack, grant, mcs_, max_retx, dci)\<close>\<close>

definition dl_new_tx ::
  "'s slot_point_ops \<Rightarrow> 's dl_harq_proc \<Rightarrow> 's \<Rightarrow> 's \<Rightarrow> prb_grant \<Rightarrow> u32 \<Rightarrow> u32 \<Rightarrow> dci_dl_t
     \<Rightarrow> bool \<times> 's dl_harq_proc \<times> dci_dl_t" where
  "dl_new_tx ops d slot_tx' slot_ack' grant mcs' max_retx' dci =
     (case new_tx (dl_harq d) slot_tx' slot_ack' grant mcs' max_retx' of
        (True, h1) \<Rightarrow>
          (let d1 = d\<lparr>dl_harq := h1, pdu := []\<rparr> in (True, d1, dl_fill_dci ops d1 dci))
      | (False, h1) \<Rightarrow> (False, d\<lparr>dl_harq := h1\<rparr>, dci))"

text \<open>\<open>bool dl_harq_proc::new_retx(slot_tx, slot_ack, grant, dci)\<close>\<close>

definition dl_new_retx ::
  "'s slot_point_ops \<Rightarrow> 's dl_harq_proc \<Rightarrow> 's \<Rightarrow> 's \<Rightarrow> prb_grant \<Rightarrow> dci_dl_t
     \<Rightarrow> bool \<times> 's dl_harq_proc \<times> dci_dl_t" where
  "dl_new_retx ops d slot_tx' slot_ack' grant dci =
     (case new_retx_grant (dl_harq d) slot_tx' slot_ack' grant of
        (True, h1) \<Rightarrow> (let d1 = d\<lparr>dl_harq := h1\<rparr> in (True, d1, dl_fill_dci ops d1 dci))
      | (False, h1) \<Rightarrow> (False, d\<lparr>dl_harq := h1\<rparr>, dci))"

text \<open>\<open>void ul_harq_proc::fill_dci(dci_ul_t& dci)\<close>; an uplink process has no field of its own.\<close>

definition ul_fill_dci :: "'s harq_proc \<Rightarrow> dci_ul_t \<Rightarrow> dci_ul_t" where
  "ul_fill_dci h dci =
     dci\<lparr>ul_pid := pid h, ul_ndi := ndi (tb h), ul_mcs := mcs (tb h),
         ul_rv := rv_idx ! unat (nof_retx h mod 4)\<rparr>"

text \<open>\<open>bool ul_harq_proc::new_tx(slot_tx, grant, mcs_, max_retx, dci)\<close>\<close>

definition ul_new_tx ::
  "'s harq_proc \<Rightarrow> 's \<Rightarrow> prb_grant \<Rightarrow> u32 \<Rightarrow> u32 \<Rightarrow> dci_ul_t
     \<Rightarrow> bool \<times> 's harq_proc \<times> dci_ul_t" where
  "ul_new_tx h slot_tx' grant mcs' max_retx' dci =
     (case new_tx h slot_tx' slot_tx' grant mcs' max_retx' of
        (True, h1) \<Rightarrow> (True, h1, ul_fill_dci h1 dci)
      | (False, h1) \<Rightarrow> (False, h1, dci))"

text \<open>\<open>bool ul_harq_proc::new_retx(slot_tx, grant, dci)\<close>\<close>

definition ul_new_retx ::
  "'s harq_proc \<Rightarrow> 's \<Rightarrow> prb_grant \<Rightarrow> dci_ul_t \<Rightarrow> bool \<times> 's harq_proc \<times> dci_ul_t" where
  "ul_new_retx h slot_tx' grant dci =
     (case new_retx_grant h slot_tx' slot_tx' grant of
        (True, h1) \<Rightarrow> (True, h1, ul_fill_dci h1 dci)
      | (False, h1) \<Rightarrow> (False, h1, dci))"

subsection \<open>Runs without acknowledgment\<close>

text \<open>
  A run in which no \<open>ack_info\<close> ever arrives: each element \<open>(rx, tx, ack)\<close> of the list is
  one cycle, \<open>new_slot(rx)\<close> followed by \<open>new_retx(tx, ack)\<close>. The result is the number of
  retransmissions that succeeded and the process after the last cycle.
\<close>

fun retx_cycles ::
  "'s slot_point_ops \<Rightarrow> 's harq_proc \<Rightarrow> ('s \<times> 's \<times> 's) list \<Rightarrow> nat \<times> 's harq_proc" where
  "retx_cycles ops h [] = (0, h)"
| "retx_cycles ops h ((rx, tx, ack) # cs) =
     (case new_retx (new_slot ops h rx) tx ack of
        (ok, h1) \<Rightarrow>
          (case retx_cycles ops h1 cs of (n, h2) \<Rightarrow> ((if ok then 1 else 0) + n, h2)))"

text \<open>
  Every \<open>new_slot\<close> of the run comes when the ack slot of the transmission before it has
  been reached: \<open>rx < slot_ack\<close> is false.
\<close>

fun acks_reached :: "'s slot_point_ops \<Rightarrow> 's \<Rightarrow> ('s \<times> 's \<times> 's) list \<Rightarrow> bool" where
  "acks_reached ops a [] = True"
| "acks_reached ops a ((rx, tx, ack) # cs) = (\<not> slot_lt ops rx a \<and> acks_reached ops ack cs)"

text \<open>The ack slot that the process expects after the run.\<close>

fun last_ack :: "'s \<Rightarrow> ('s \<times> 's \<times> 's) list \<Rightarrow> 's" where
  "last_ack a [] = a"
| "last_ack a ((rx, tx, ack) # cs) = last_ack ack cs"

text \<open>Slots counted by natural numbers, for the scenarios.\<close>

definition nat_slots :: "nat slot_point_ops" where
  "nat_slots = \<lparr>slot_lt = (\<lambda>a b. a < b), slot_diff = (\<lambda>a b. int a - int b),
                slot_index = (\<lambda>a. of_nat (a mod 20))\<rparr>"

text \<open>
  A fresh process, empty, as the HARQ entity creates it. The constructor is in the header;
  nothing below depends on the values chosen here for the other members.
\<close>

definition harq_init :: "u32 \<Rightarrow> nat harq_proc" where
  "harq_init id' =
     \<lparr>pid = id', max_retx = 1, slot_tx = 0, slot_ack = 0, prbs = alloc_type1 0 0,
      tb = \<lparr>state = empty, ack_state = False, ndi = False, n_rtx = 0, mcs = 0, tbs = 0\<rparr>\<rparr>"

text \<open>
  The process after a first transmission at slot 10, acknowledgment expected at slot 14,
  with a type-1 grant of ten PRBs, MCS 5 and the given budget.
\<close>

definition sent :: "u32 \<Rightarrow> nat harq_proc" where
  "sent budget = snd (new_tx (harq_init 0) 10 14 (alloc_type1 0 10) 5 budget)"

text \<open>
  A fresh downlink process, and control information as the caller hands it to
  \<open>fill_dci\<close>, with stale values in the fields to be filled.
\<close>

definition dl_init :: "nat dl_harq_proc" where
  "dl_init = \<lparr>dl_harq = harq_init 0, pdu = [1, 2, 3]\<rparr>"

definition dci_dl_stale :: dci_dl_t where
  "dci_dl_stale = \<lparr>dl_format = f1_0, dl_pid = 9, dl_ndi = False, dl_mcs = 9, dl_rv = 9,
                    dl_harq_feedback = 9\<rparr>"

definition dci_ul_stale :: dci_ul_t where
  "dci_ul_stale = \<lparr>ul_pid = 9, ul_ndi = False, ul_mcs = 9, ul_rv = 9\<rparr>"

text \<open>
  The same transmission on the downlink process, and both processes after the slot 14
  at which the acknowledgment is found missing.
\<close>

definition dl_sent :: "nat dl_harq_proc" where
  "dl_sent = fst (snd (dl_new_tx nat_slots dl_init 10 14 (alloc_type1 0 10) 5 4 dci_dl_stale))"

definition dl_timed_out :: "nat dl_harq_proc" where
  "dl_timed_out = dl_sent\<lparr>dl_harq := new_slot nat_slots (dl_harq dl_sent) 14\<rparr>"

definition timed_out :: "nat harq_proc" where
  "timed_out = new_slot nat_slots (sent 4) 14"

text \<open>
  The cycles of a scheduler that retransmits in the slot in which the acknowledgment was
  missed and expects the next one four slots later: \<open>n\<close> cycles, the first at slot \<open>a\<close>.
\<close>

fun scenario_cycles :: "nat \<Rightarrow> nat \<Rightarrow> (nat \<times> nat \<times> nat) list" where
  "scenario_cycles a 0 = []"
| "scenario_cycles a (Suc n) = (a, a, a + 4) # scenario_cycles (a + 4) n"

text \<open>
  Scenario A slot by slot: in every slot of the list \<open>new_slot\<close> is called and the
  scheduler then tries \<open>new_retx\<close>, with the acknowledgment expected at slot \<open>k s\<close>; the
  attempt fails unless the process is in \<open>pending_retx\<close>. The result is the number of
  retransmissions that succeeded and the process after the last slot.
\<close>

fun no_ack_slots ::
  "'s slot_point_ops \<Rightarrow> ('s \<Rightarrow> 's) \<Rightarrow> 's harq_proc \<Rightarrow> 's list \<Rightarrow> nat \<times> 's harq_proc" where
  "no_ack_slots ops k h [] = (0, h)"
| "no_ack_slots ops k h (s # ss) =
     (case new_retx (new_slot ops h s) s (k s) of
        (ok, h1) \<Rightarrow>
          (case no_ack_slots ops k h1 ss of (n, h2) \<Rightarrow> ((if ok then 1 else 0) + n, h2)))"

text \<open>
  The process that was given the budget \<open>2^32 - 1\<close> and has gone through as many of
  these cycles, no acknowledgment ever arriving.
\<close>

definition exhausted :: "nat harq_proc" where
  "exhausted = snd (retx_cycles nat_slots (sent 4294967295) (scenario_cycles 14 4294967295))"

subsection \<open>The shape of a grant, in the words of the specification\<close>

text \<open>
  Two grants differ in shape when they differ in the resource-allocation type, or, both
  of type 0, in the number of RBGs, or, both of type 1, in the contiguous length.
\<close>

fun spec_shape_differs :: "prb_grant \<Rightarrow> prb_grant \<Rightarrow> bool" where
  "spec_shape_differs (alloc_type0 a) (alloc_type0 b) =
     (length (filter (\<lambda>x. x) a) \<noteq> length (filter (\<lambda>x. x) b))"
| "spec_shape_differs (alloc_type1 s1 e1) (alloc_type1 s2 e2) = (e1 - s1 \<noteq> e2 - s2)"
| "spec_shape_differs g1 g2 = True"

section \<open>The event lists of the event manager (lib/scheduler/event_manager.h)\<close>

text \<open>
  The header declares \<open>event_t\<close> (a UE index and a callback) and \<open>event_list\<close> (a mutex
  and the two vectors \<open>next_events\<close> and \<open>current_events\<close>). The callback is a
  \<open>unique_function\<close>; here it is a value of a type \<open>'c\<close> that names it.
\<close>

record 'c event_t =
  ue_index :: nat
  callback :: 'c

record 'c event_list =
  next_events :: "'c event_t list"
  current_events :: "'c event_t list"

text \<open>
  Modelled from the spec: the functions that enqueue events and \<open>event_manager::run\<close> are
  declared in the header, their bodies are not among the sources. Section 4.3 of the
  specification gives the protocol. A producer appends to the "next" buffer under the
  lock. Slot processing exchanges the two buffers under the lock and then drains
  "current", event by event, without the lock.

  The state of a run is the event list with two observers: the number of the slot being
  processed and the log of the events that the drain has handed to their callbacks, each
  with the slot in which that happened.
\<close>

record 'c event_run = "'c event_list" +
  slot_no :: nat
  applied :: "(nat \<times> 'c event_t) list"

text \<open>
  The steps of the two sides. \<open>Enqueue\<close> and \<open>SlotStart\<close> are the two critical sections,
  each atomic under the mutex; \<open>ApplyNext\<close> is one turn of the drain loop, which touches
  \<open>current_events\<close> only. A run is a list of steps, so the producers' steps come anywhere
  between those of the slot consumer.
\<close>

datatype 'c action = Enqueue "'c event_t" | SlotStart | ApplyNext

definition enqueue :: "'c event_t \<Rightarrow> 'c event_run \<Rightarrow> 'c event_run" where
  "enqueue ev st = st\<lparr>next_events := next_events st @ [ev]\<rparr>"

definition swap_events :: "'c event_run \<Rightarrow> 'c event_run" where
  "swap_events st = st\<lparr>next_events := current_events st, current_events := next_events st\<rparr>"

text \<open>
  The slot consumer is sequential: it starts a slot only when the drain of the slot
  before has emptied \<open>current_events\<close>. A \<open>SlotStart\<close> that comes earlier is not a step of
  the program, and the run has no result.
\<close>

fun step :: "'c event_run \<Rightarrow> 'c action \<Rightarrow> 'c event_run option" where
  "step st (Enqueue ev) = Some (enqueue ev st)"
| "step st SlotStart =
     (if current_events st = [] then Some ((swap_events st)\<lparr>slot_no := slot_no st + 1\<rparr>)
      else None)"
| "step st ApplyNext =
     (case current_events st of
        [] \<Rightarrow> Some st
      | ev # evs \<Rightarrow>
          Some (st\<lparr>current_events := evs, applied := applied st @ [(slot_no st, ev)]\<rparr>))"



text \<open>An event for UE 0 whose callback is named by a number, for the scenarios.\<close>

definition ev :: "nat \<Rightarrow> nat event_t" where
  "ev k = \<lparr>ue_index = 0, callback = k\<rparr>"

section \<open>Properties\<close>

subsection \<open>The retransmission counter and the budget\<close>

text \<open>
  The check of \<open>new_slot\<close>, \<open>nof_retx() + 1 > max_nof_retx()\<close>, is computed on 32-bit
  unsigned integers. It is the comparison on natural numbers as long as the counter is
  below the budget, or the budget below \<open>2^32 - 1\<close>; at \<open>2^32 - 1\<close> the sum wraps to 0.
\<close>

lemma no_wrap_check: "unat n < unat M \<Longrightarrow> \<not> (M < n + 1)" for n M :: u32
  by unat_arith

lemma unat_succ_budget: "unat n < unat M \<Longrightarrow> unat (n + 1) = Suc (unat n)" for n M :: u32
  by unat_arith

lemma exceed_check: "unat M < 2 ^ 32 - 1 \<Longrightarrow> M < M + 1" for M :: u32
proof -
  assume "unat M < 2 ^ 32 - 1"
  then have "unat M + unat (1 :: u32) < 2 ^ LENGTH(32)" by simp
  then have "unat (M + 1) = unat M + unat (1 :: u32)" by (simp only: unat_add_lem)
  then show ?thesis by (simp add: word_less_nat_alt)
qed

text \<open>One cycle without acknowledgment, while the counter is below the budget.\<close>

lemma cycle_step:
  assumes "state (tb h) = waiting_ack" "\<not> slot_lt ops rx (slot_ack h)"
    "unat (n_rtx (tb h)) < unat (max_retx h)"
  shows "new_retx (new_slot ops h rx) tx ack =
     (True, h\<lparr>slot_tx := tx, slot_ack := ack,
              tb := (tb h)\<lparr>state := waiting_ack, ack_state := False, n_rtx := n_rtx (tb h) + 1\<rparr>\<rparr>)"
  using assms no_wrap_check [of "n_rtx (tb h)" "max_retx h"]
  by (simp add: new_retx_def new_slot_def harq_empty_def nof_retx_def max_nof_retx_def)

text \<open>
  A run of cycles that stays within the budget: every retransmission succeeds, the counter
  has grown by the number of cycles and the process waits for its acknowledgment.
\<close>

lemma retx_cycles_budget:
  assumes "state (tb h) = waiting_ack" "acks_reached ops (slot_ack h) cs"
    "unat (n_rtx (tb h)) + length cs \<le> unat (max_retx h)"
  shows "fst (retx_cycles ops h cs) = length cs
     \<and> state (tb (snd (retx_cycles ops h cs))) = waiting_ack
     \<and> n_rtx (tb (snd (retx_cycles ops h cs))) = n_rtx (tb h) + of_nat (length cs)
     \<and> max_retx (snd (retx_cycles ops h cs)) = max_retx h
     \<and> slot_ack (snd (retx_cycles ops h cs)) = last_ack (slot_ack h) cs"
  using assms
proof (induction cs arbitrary: h)
  case Nil
  then show ?case by simp
next
  case (Cons c cs)
  obtain rx tx ack where c: "c = (rx, tx, ack)" by (cases c)
  let ?h1 = "h\<lparr>slot_tx := tx, slot_ack := ack,
              tb := (tb h)\<lparr>state := waiting_ack, ack_state := False, n_rtx := n_rtx (tb h) + 1\<rparr>\<rparr>"
  from Cons.prems c have lt: "unat (n_rtx (tb h)) < unat (max_retx h)" by simp
  from Cons.prems c have step: "new_retx (new_slot ops h rx) tx ack = (True, ?h1)"
    by (intro cycle_step) (simp_all add: lt)
  have n1: "unat (n_rtx (tb ?h1)) = Suc (unat (n_rtx (tb h)))"
    using unat_succ_budget [OF lt] by simp
  have ih: "fst (retx_cycles ops ?h1 cs) = length cs
     \<and> state (tb (snd (retx_cycles ops ?h1 cs))) = waiting_ack
     \<and> n_rtx (tb (snd (retx_cycles ops ?h1 cs))) = n_rtx (tb ?h1) + of_nat (length cs)
     \<and> max_retx (snd (retx_cycles ops ?h1 cs)) = max_retx ?h1
     \<and> slot_ack (snd (retx_cycles ops ?h1 cs)) = last_ack (slot_ack ?h1) cs"
  proof (rule Cons.IH)
    show "state (tb ?h1) = waiting_ack" by simp
    show "acks_reached ops (slot_ack ?h1) cs" using Cons.prems c by simp
    show "unat (n_rtx (tb ?h1)) + length cs \<le> unat (max_retx ?h1)"
      using Cons.prems n1 by simp
  qed
  show ?case
    using ih by (auto simp add: c step add.assoc split: prod.splits)
qed


lemma length_scenario_cycles: "length (scenario_cycles a n) = n"
  by (induction n arbitrary: a) simp_all

lemma acks_reached_scenario_cycles: "acks_reached nat_slots a (scenario_cycles a n)"
  by (induction n arbitrary: a) (simp_all add: nat_slots_def)

lemma last_ack_scenario_cycles: "last_ack a (scenario_cycles a n) = a + 4 * n"
  by (induction n arbitrary: a) simp_all

lemma new_tx_start:
  assumes "harq_empty h0"
  shows "state (tb (snd (new_tx h0 tx0 ack0 g m budget))) = waiting_ack"
    and "n_rtx (tb (snd (new_tx h0 tx0 ack0 g m budget))) = 0"
    and "max_retx (snd (new_tx h0 tx0 ack0 g m budget)) = budget"
    and "slot_ack (snd (new_tx h0 tx0 ack0 g m budget)) = ack0"
  using assms by (simp_all add: new_tx_def reset_def Let_def)

subsection \<open>The scenario states\<close>

lemma sent_fields:
  "state (tb (sent b)) = waiting_ack" "n_rtx (tb (sent b)) = 0" "tbs (tb (sent b)) = 0"
  "max_retx (sent b) = b" "slot_ack (sent b) = 14" "slot_tx (sent b) = 10"
  "prbs (sent b) = alloc_type1 0 10" "ndi (tb (sent b)) = True" "mcs (tb (sent b)) = 5"
  by (simp_all add: sent_def new_tx_def reset_def harq_init_def harq_empty_def Let_def)

lemma timed_out_fields:
  "state (tb timed_out) = pending_retx" "n_rtx (tb timed_out) = 0" "ndi (tb timed_out) = True"
  "prbs timed_out = alloc_type1 0 10" "max_retx timed_out = 4" "mcs (tb timed_out) = 5"
  "tbs (tb timed_out) = 0"
  by (simp_all add: timed_out_def new_slot_def harq_empty_def nof_retx_def max_nof_retx_def
      nat_slots_def sent_fields)

lemma dl_sent_eq:
  "dl_new_tx nat_slots dl_init 10 14 (alloc_type1 0 10) 5 4 dci_dl_stale
     = (True, dl_sent, \<lparr>dl_format = f1_0, dl_pid = 0, dl_ndi = True, dl_mcs = 5, dl_rv = 0,
                        dl_harq_feedback = 3\<rparr>)"
  "dl_sent = \<lparr>dl_harq = sent 4, pdu = []\<rparr>"
  by (simp_all add: dl_sent_def dl_new_tx_def dl_init_def dci_dl_stale_def dl_fill_dci_def
      new_tx_def reset_def harq_init_def harq_empty_def nof_retx_def rv_idx_def nat_slots_def
      sent_def Let_def)

lemma dl_timed_out_eq: "dl_timed_out = \<lparr>dl_harq = timed_out, pdu = []\<rparr>"
  by (simp add: dl_timed_out_def timed_out_def dl_sent_eq(2))

lemma dl_retx_eq:
  "fst (dl_new_retx nat_slots dl_timed_out 18 22 (alloc_type1 5 15) dci_dl_stale)"
  by (simp add: dl_new_retx_def new_retx_grant_def new_retx_def is_alloc_type1_def
      dl_timed_out_eq timed_out_fields Let_def)

lemma ul_sent_eq: "fst (ul_new_tx (harq_init 0) 10 (alloc_type1 0 10) 5 4 dci_ul_stale)"
  by (simp add: ul_new_tx_def new_tx_def harq_init_def harq_empty_def Let_def)

lemma ul_retx_eq: "fst (ul_new_retx timed_out 18 (alloc_type1 5 15) dci_ul_stale)"
  by (simp add: ul_new_retx_def new_retx_grant_def new_retx_def is_alloc_type1_def
      timed_out_fields)

lemma triple_collapse: "fst x \<Longrightarrow> x = (True, fst (snd x), snd (snd x))"
  by (cases x) simp

lemma exceed_check_le:
  "unat M \<le> unat n \<Longrightarrow> unat n < 2 ^ 32 - 1 \<Longrightarrow> M < n + 1" for n M :: u32
proof -
  assume le: "unat M \<le> unat n" and "unat n < 2 ^ 32 - 1"
  then have "unat n + unat (1 :: u32) < 2 ^ LENGTH(32)" by simp
  then have "unat (n + 1) = unat n + unat (1 :: u32)" by (simp only: unat_add_lem)
  with le show ?thesis by (simp add: word_less_nat_alt)
qed

subsection \<open>C1: the retransmission limit\<close>

text \<open>
  Below \<open>2^32 - 1\<close> the limit works, whatever the history of the process: a process that
  is not empty and whose counter has reached its budget is discarded by the \<open>new_slot\<close>
  that comes when the expected ack slot has been reached.
\<close>

lemma new_slot_discards_at_budget:
  assumes "\<not> harq_empty h" and "\<not> slot_lt ops rx (slot_ack h)"
    and "unat (max_nof_retx h) \<le> unat (nof_retx h)" and "unat (nof_retx h) < 2 ^ 32 - 1"
  shows "harq_empty (new_slot ops h rx)"
  using assms(1,2) exceed_check_le [OF assms(3,4)]
  by (simp add: new_slot_def harq_empty_def nof_retx_def max_nof_retx_def)

text \<open>
  A process that \<open>new_tx\<close> gave the budget \<open>max_retx\<close>, with \<open>max_retx < 2^32 - 1\<close>, and
  that no \<open>ack_info\<close> ever reaches, is retransmitted by \<open>max_retx\<close> cycles of \<open>new_slot\<close>
  (at a slot that has reached the expected ack slot) and \<open>new_retx\<close>: all of them
  succeed, so the process is not discarded on the way. After them the counter equals the
  budget and the process waits for an acknowledgment; the next \<open>new_slot\<close> whose slot
  has reached the expected ack slot discards it.
\<close>

lemma retx_limit_discards:
  assumes "harq_empty h0" and "unat budget < 2 ^ 32 - 1" and "length cs = unat budget"
    and "acks_reached ops ack0 cs" and "\<not> slot_lt ops rx (last_ack ack0 cs)"
  shows "let r = retx_cycles ops (snd (new_tx h0 tx0 ack0 g m budget)) cs
         in fst r = unat budget \<and> state (tb (snd r)) = waiting_ack
            \<and> nof_retx (snd r) = max_nof_retx (snd r) \<and> max_nof_retx (snd r) = budget
            \<and> harq_empty (new_slot ops (snd r) rx)"
proof -
  let ?h = "snd (new_tx h0 tx0 ack0 g m budget)"
  let ?r = "retx_cycles ops ?h cs"
  note st = new_tx_start [OF assms(1), of tx0 ack0 g m budget]
  have inv: "fst ?r = length cs
     \<and> state (tb (snd ?r)) = waiting_ack
     \<and> n_rtx (tb (snd ?r)) = n_rtx (tb ?h) + of_nat (length cs)
     \<and> max_retx (snd ?r) = max_retx ?h
     \<and> slot_ack (snd ?r) = last_ack (slot_ack ?h) cs"
  proof (rule retx_cycles_budget)
    show "state (tb ?h) = waiting_ack" by (rule st)
    show "acks_reached ops (slot_ack ?h) cs" using assms(4) by (simp only: st)
    show "unat (n_rtx (tb ?h)) + length cs \<le> unat (max_retx ?h)"
      using assms(3) by (simp add: st)
  qed
  have n: "n_rtx (tb (snd ?r)) = budget" and mx: "max_retx (snd ?r) = budget"
    and sa: "slot_ack (snd ?r) = last_ack ack0 cs" and w: "state (tb (snd ?r)) = waiting_ack"
    using inv assms(3) by (simp_all add: st)
  have "harq_empty (new_slot ops (snd ?r) rx)"
    using exceed_check [OF assms(2)] assms(5)
    by (simp add: new_slot_def harq_empty_def nof_retx_def max_nof_retx_def n mx sa w)
  then show ?thesis
    using inv assms(3) n mx by (simp add: Let_def nof_retx_def max_nof_retx_def)
qed

text \<open>
  Scenario A: budget 4, transmission at slot 10, acknowledgment expected at slot 14. Four
  retransmission cycles succeed, the \<open>new_slot\<close> at slot 30 empties the process.
\<close>

lemma scenario_A_cycles:
  "(let r = retx_cycles nat_slots (snd (new_tx (harq_init 0) 10 14 (alloc_type1 0 10) 5 4))
                [(14, 14, 18), (18, 18, 22), (22, 22, 26), (26, 26, 30)]
      in fst r = unat (4 :: u32) \<and> state (tb (snd r)) = waiting_ack
            \<and> nof_retx (snd r) = max_nof_retx (snd r) \<and> max_nof_retx (snd r) = 4
            \<and> harq_empty (new_slot nat_slots (snd r) 30))"
proof -
  have a: "harq_empty (harq_init 0)" by (simp add: harq_empty_def harq_init_def)
  have b: "unat (4 :: u32) < 2 ^ 32 - 1" by simp
  have c: "length [(14, 14, 18), (18, 18, 22), (22, 22, 26), (26, 26, 30 :: nat)] = unat (4 :: u32)"
    by simp
  have d: "acks_reached nat_slots 14 [(14, 14, 18), (18, 18, 22), (22, 22, 26), (26, 26, 30)]"
    by (simp add: nat_slots_def)
  have e: "\<not> slot_lt nat_slots 30 (last_ack 14 [(14, 14, 18), (18, 18, 22), (22, 22, 26), (26, 26, 30)])"
    by (simp add: nat_slots_def)
  show ?thesis
    by (rule retx_limit_discards [OF a b c d e])
qed

text \<open>
  Scenario A slot by slot, \<open>new_slot\<close> called in each of the slots 14, 15, ...: the number
  of retransmissions made, and whether the process is empty, after each slot from 14 to
  32. The four retransmissions are made at the slots 14, 18, 22 and 26; the process is
  empty from slot 30 on and not before.
\<close>

lemma scenario_A_slot_by_slot:
  "map (\<lambda>n. fst (no_ack_slots nat_slots (\<lambda>s. s + 4) (sent 4) [14 ..< Suc n]))
     [14, 15, 16, 17, 18, 19, 20, 21, 22, 23, 24, 25, 26, 27, 28, 29, 30, 31, 32]
   = [1, 1, 1, 1, 2, 2, 2, 2, 3, 3, 3, 3, 4, 4, 4, 4, 4, 4, 4]
   \<and> map (\<lambda>n. harq_empty (snd (no_ack_slots nat_slots (\<lambda>s. s + 4) (sent 4) [14 ..< Suc n])))
     [14, 15, 16, 17, 18, 19, 20, 21, 22, 23, 24, 25, 26, 27, 28, 29, 30, 31, 32]
   = [False, False, False, False, False, False, False, False, False, False, False, False,
      False, False, False, False, True, True, True]"
  by code_simp

text \<open>
  The run with the budget \<open>2^32 - 1\<close>: all \<open>2^32 - 1\<close> retransmissions succeed, and after
  them the counter equals the budget.
\<close>

lemma exhausted_run:
  "fst (retx_cycles nat_slots (sent 4294967295) (scenario_cycles 14 4294967295)) = 4294967295"
  "state (tb exhausted) = waiting_ack" "n_rtx (tb exhausted) = 4294967295"
  "max_retx exhausted = 4294967295" "slot_ack exhausted = 17179869194"
proof -
  let ?h = "sent 4294967295"
  let ?cs = "scenario_cycles 14 4294967295"
  let ?r = "retx_cycles nat_slots ?h ?cs"
  have inv: "fst ?r = length ?cs
     \<and> state (tb (snd ?r)) = waiting_ack
     \<and> n_rtx (tb (snd ?r)) = n_rtx (tb ?h) + of_nat (length ?cs)
     \<and> max_retx (snd ?r) = max_retx ?h
     \<and> slot_ack (snd ?r) = last_ack (slot_ack ?h) ?cs"
  proof (rule retx_cycles_budget)
    show "state (tb ?h) = waiting_ack" by (rule sent_fields)
    show "acks_reached nat_slots (slot_ack ?h) ?cs"
      by (simp only: sent_fields acks_reached_scenario_cycles)
    show "unat (n_rtx (tb ?h)) + length ?cs \<le> unat (max_retx ?h)"
      by (simp add: sent_fields length_scenario_cycles)
  qed
  show "fst ?r = 4294967295" using inv by (simp add: length_scenario_cycles)
  show "state (tb exhausted) = waiting_ack" using inv by (simp add: exhausted_def)
  show "n_rtx (tb exhausted) = 4294967295"
    using inv by (simp add: exhausted_def sent_fields length_scenario_cycles)
  show "max_retx exhausted = 4294967295" using inv by (simp add: exhausted_def sent_fields)
  show "slot_ack exhausted = 17179869194"
    using inv by (simp add: exhausted_def sent_fields last_ack_scenario_cycles)
qed

text \<open>
  Claim C1 says that a process retransmitted exactly \<open>max_retx\<close> times is discarded by
  the first \<open>new_slot\<close> that finds its acknowledgment missing. With the budget
  \<open>2^32 - 1\<close> the code does not do so: after \<open>new_tx\<close> and \<open>2^32 - 1\<close> successful
  retransmissions the counter equals the budget, the sum \<open>nof_retx() + 1\<close> of the check
  wraps to 0, and the \<open>new_slot\<close> at the expected ack slot leaves the process in
  \<open>pending_retx\<close>.
\<close>

theorem retx_limit_wraps:
  "fst (retx_cycles nat_slots (sent 4294967295) (scenario_cycles 14 4294967295)) = 4294967295
   \<and> exhausted = snd (retx_cycles nat_slots (sent 4294967295) (scenario_cycles 14 4294967295))
   \<and> max_nof_retx exhausted = 4294967295
   \<and> nof_retx exhausted = max_nof_retx exhausted
   \<and> \<not> slot_lt nat_slots 17179869194 (slot_ack exhausted)
   \<and> state (tb (new_slot nat_slots exhausted 17179869194)) = pending_retx
   \<and> \<not> harq_empty (new_slot nat_slots exhausted 17179869194)"
proof -
  have a: "fst (retx_cycles nat_slots (sent 4294967295) (scenario_cycles 14 4294967295))
      = 4294967295"
    by (rule exhausted_run)
  have b: "exhausted
      = snd (retx_cycles nat_slots (sent 4294967295) (scenario_cycles 14 4294967295))"
    by (rule exhausted_def)
  have c: "max_nof_retx exhausted = 4294967295" "nof_retx exhausted = max_nof_retx exhausted"
    by (simp_all add: nof_retx_def max_nof_retx_def exhausted_run)
  have d: "\<not> slot_lt nat_slots 17179869194 (slot_ack exhausted)"
    by (simp add: exhausted_run nat_slots_def)
  have e: "state (tb (new_slot nat_slots exhausted 17179869194)) = pending_retx"
    using d by (simp add: new_slot_def harq_empty_def nof_retx_def max_nof_retx_def exhausted_run)
  then have f: "\<not> harq_empty (new_slot nat_slots exhausted 17179869194)"
    by (simp add: harq_empty_def)
  show ?thesis by (intro conjI; fact)
qed

subsection \<open>C2: the discard check comes after the implicit NACK\<close>

text \<open>
  In one call \<open>new_slot(rx)\<close> on a process that is not empty, at a slot that has reached
  \<open>slot_ack\<close>, the process ends in \<open>empty\<close> when the test \<open>nof_retx() + 1 > max_nof_retx()\<close>
  holds as the source computes it, on 32-bit unsigned integers, and in \<open>pending_retx\<close>
  otherwise, all other fields untouched. For a process in \<open>waiting_ack\<close> the call gives
  what it gives on the process with the implicit NACK already applied.
\<close>

lemma new_slot_timeout_then_discard:
  "(\<not> harq_empty h \<and> \<not> slot_lt ops rx (slot_ack h) \<longrightarrow>
      new_slot ops h rx =
        h\<lparr>tb := (tb h)\<lparr>state := (if max_nof_retx h < nof_retx h + 1 then empty
                                   else pending_retx)\<rparr>\<rparr>)
   \<and> (state (tb h) = waiting_ack \<and> \<not> slot_lt ops rx (slot_ack h) \<longrightarrow>
      new_slot ops h rx = new_slot ops (h\<lparr>tb := (tb h)\<lparr>state := pending_retx\<rparr>\<rparr>) rx)
   \<and> (state (tb h) = waiting_ack \<and> \<not> slot_lt ops rx (slot_ack h)
        \<and> max_nof_retx h < nof_retx h + 1 \<longrightarrow>
      state (tb (new_slot ops h rx)) = empty)"
  by (cases "state (tb h)")
    (simp_all add: new_slot_def harq_empty_def nof_retx_def max_nof_retx_def)

text \<open>
  With the counter below \<open>2^32 - 1\<close> the test is the comparison of the numbers: a process
  in \<open>waiting_ack\<close> whose budget is exhausted goes to \<open>empty\<close> in the very call in which
  its acknowledgment timed out.
\<close>

lemma new_slot_exhausted_discards:
  assumes "state (tb h) = waiting_ack" and "\<not> slot_lt ops rx (slot_ack h)"
    and "unat (max_nof_retx h) \<le> unat (nof_retx h)" and "unat (nof_retx h) < 2 ^ 32 - 1"
  shows "state (tb (new_slot ops h rx)) = empty"
  using assms(1,2) exceed_check_le [OF assms(3,4)]
  by (simp add: new_slot_def harq_empty_def nof_retx_def max_nof_retx_def)

text \<open>A transmission with budget 0 whose acknowledgment is missing at slot 14.\<close>

lemma new_slot_budget_zero:
  "state (tb (sent 0)) = waiting_ack \<and> \<not> slot_lt nat_slots 14 (slot_ack (sent 0))
   \<and> state (tb (new_slot nat_slots (sent 0) 14)) = empty"
proof -
  have a: "state (tb (sent 0)) = waiting_ack" by (rule sent_fields)
  have b: "\<not> slot_lt nat_slots 14 (slot_ack (sent 0))" by (simp add: sent_fields nat_slots_def)
  have c: "unat (max_nof_retx (sent 0)) \<le> unat (nof_retx (sent 0))"
    by (simp add: max_nof_retx_def nof_retx_def sent_fields)
  have d: "unat (nof_retx (sent 0)) < 2 ^ 32 - 1" by (simp add: nof_retx_def sent_fields)
  show ?thesis using a b new_slot_exhausted_discards [OF a b c d] by blast
qed

text \<open>
  Claim C2 says that a process in \<open>waiting_ack\<close> whose retransmission budget is exhausted
  goes all the way to \<open>empty\<close> in the \<open>new_slot\<close> call in which its acknowledgment timed
  out. For the process with budget and counter both at \<open>2^32 - 1\<close> the code does not do
  so: the budget is exhausted and the ack slot reached, the implicit NACK is applied, but
  the check that follows it computes \<open>nof_retx() + 1 = 0\<close> and the call returns the
  process in \<open>pending_retx\<close>, nothing else changed.
\<close>

theorem new_slot_exhausted_budget_wraps:
  "state (tb exhausted) = waiting_ack
   \<and> unat (nof_retx exhausted) = 4294967295
   \<and> unat (max_nof_retx exhausted) \<le> unat (nof_retx exhausted)
   \<and> \<not> slot_lt nat_slots (slot_ack exhausted) (slot_ack exhausted)
   \<and> nof_retx exhausted + 1 = 0
   \<and> new_slot nat_slots exhausted (slot_ack exhausted)
       = exhausted\<lparr>tb := (tb exhausted)\<lparr>state := pending_retx\<rparr>\<rparr>"
  by (simp add: exhausted_run new_slot_def harq_empty_def nof_retx_def max_nof_retx_def
      nat_slots_def)

subsection \<open>C3: new_tx\<close>

text \<open>
  Claim C3. \<open>new_tx\<close> returns true exactly when the process is empty. After a successful
  call the state is \<open>waiting_ack\<close> and the new-data indicator is the negation of its value
  before the call; a failed call leaves the process as it was.
\<close>

theorem new_tx_iff_empty:
  "fst (new_tx h tx ack g m r) = harq_empty h
   \<and> (harq_empty h \<longrightarrow>
        state (tb (snd (new_tx h tx ack g m r))) = waiting_ack
        \<and> ndi (tb (snd (new_tx h tx ack g m r))) = (\<not> ndi (tb h)))
   \<and> (\<not> harq_empty h \<longrightarrow> snd (new_tx h tx ack g m r) = h)"
  by (simp add: new_tx_def reset_def Let_def)

text \<open>A first transmission on a fresh process, and a second \<open>new_tx\<close> on the busy one.\<close>

theorem new_tx_iff_empty_witness:
  "fst (new_tx (harq_init 3) 10 14 (alloc_type1 0 10) 5 4) = harq_empty (harq_init 3)
   \<and> harq_empty (harq_init 3)
   \<and> state (tb (snd (new_tx (harq_init 3) 10 14 (alloc_type1 0 10) 5 4))) = waiting_ack
   \<and> ndi (tb (snd (new_tx (harq_init 3) 10 14 (alloc_type1 0 10) 5 4)))
       = (\<not> ndi (tb (harq_init 3)))
   \<and> \<not> harq_empty (snd (new_tx (harq_init 3) 10 14 (alloc_type1 0 10) 5 4))
   \<and> snd (new_tx (snd (new_tx (harq_init 3) 10 14 (alloc_type1 0 10) 5 4)) 11 15
             (alloc_type1 0 10) 5 4)
       = snd (new_tx (harq_init 3) 10 14 (alloc_type1 0 10) 5 4)"
proof -
  have e: "harq_empty (harq_init 3)" by (simp add: harq_empty_def harq_init_def)
  have n: "\<not> harq_empty (snd (new_tx (harq_init 3) 10 14 (alloc_type1 0 10) 5 4))"
    by (simp add: harq_empty_def harq_init_def new_tx_def reset_def Let_def)
  show ?thesis
    using new_tx_iff_empty [of "harq_init 3" 10 14 "alloc_type1 0 10" 5 4]
      new_tx_iff_empty [of "snd (new_tx (harq_init 3) 10 14 (alloc_type1 0 10) 5 4)" 11 15
        "alloc_type1 0 10" 5 4] e n
    by blast
qed

subsection \<open>What a successful call has done\<close>

lemma rv_idx_mod: "rv_idx ! unat (n mod 4) = [0, 2, 3, 1] ! (unat n mod 4)" for n :: u32
  by (simp add: rv_idx_def unat_mod)

lemma dl_fill_dci_rv:
  "dl_rv (dl_fill_dci ops d dci) = [0, 2, 3, 1] ! (unat (nof_retx (dl_harq d)) mod 4)"
  by (simp add: dl_fill_dci_def Let_def rv_idx_mod)

lemma ul_fill_dci_rv:
  "ul_rv (ul_fill_dci h dci) = [0, 2, 3, 1] ! (unat (nof_retx h) mod 4)"
  by (simp add: ul_fill_dci_def rv_idx_mod)

lemma new_tx_True:
  "new_tx h tx ack g m r = (True, h') \<Longrightarrow> harq_empty h \<and> nof_retx h' = 0 \<and> ndi (tb h') = (\<not> ndi (tb h))"
  by (auto simp add: new_tx_def reset_def nof_retx_def Let_def split: if_splits)

lemma new_retx_True:
  "new_retx h tx ack = (True, h') \<Longrightarrow>
     state (tb h) = pending_retx
     \<and> h' = h\<lparr>slot_tx := tx, slot_ack := ack,
               tb := (tb h)\<lparr>state := waiting_ack, ack_state := False,
                            n_rtx := n_rtx (tb h) + 1\<rparr>\<rparr>"
  by (auto simp add: new_retx_def split: if_splits)

lemma new_retx_grant_True:
  "new_retx_grant h tx ack g = (True, h') \<Longrightarrow>
     state (tb h) = pending_retx
     \<and> h' = h\<lparr>slot_tx := tx, slot_ack := ack, prbs := g,
               tb := (tb h)\<lparr>state := waiting_ack, ack_state := False,
                            n_rtx := n_rtx (tb h) + 1\<rparr>\<rparr>"
  by (auto simp add: new_retx_grant_def new_retx_def split: if_splits)

lemma dl_new_tx_True:
  "dl_new_tx ops d tx ack g m r dci = (True, d', dci') \<Longrightarrow>
     (\<exists>h'. new_tx (dl_harq d) tx ack g m r = (True, h') \<and> d' = d\<lparr>dl_harq := h', pdu := []\<rparr>)
     \<and> dci' = dl_fill_dci ops d' dci"
  by (auto simp add: dl_new_tx_def Let_def split: prod.splits bool.splits)

lemma dl_new_retx_True:
  "dl_new_retx ops d tx ack g dci = (True, d', dci') \<Longrightarrow>
     (\<exists>h'. new_retx_grant (dl_harq d) tx ack g = (True, h') \<and> d' = d\<lparr>dl_harq := h'\<rparr>)
     \<and> dci' = dl_fill_dci ops d' dci"
  by (auto simp add: dl_new_retx_def Let_def split: prod.splits bool.splits)

lemma ul_new_tx_True:
  "ul_new_tx h tx g m r dci = (True, h', dci') \<Longrightarrow>
     new_tx h tx tx g m r = (True, h') \<and> dci' = ul_fill_dci h' dci"
  by (auto simp add: ul_new_tx_def split: prod.splits bool.splits)

lemma ul_new_retx_True:
  "ul_new_retx h tx g dci = (True, h', dci') \<Longrightarrow>
     new_retx_grant h tx tx g = (True, h') \<and> dci' = ul_fill_dci h' dci"
  by (auto simp add: ul_new_retx_def split: prod.splits bool.splits)

subsection \<open>The value returned by ack_info\<close>

text \<open>
  \<open>ack_info\<close> returns an \<open>int\<close>, the transport block size is a \<open>uint32_t\<close>: the value
  returned is the size itself below \<open>2^31\<close> and the size minus \<open>2^32\<close> from there on.
\<close>

lemma sint_small: "unat w < 2 ^ 31 \<Longrightarrow> sint w = int (unat w)" for w :: u32
proof -
  assume a: "unat w < 2 ^ 31"
  have "int (unat w) < int (2 ^ 31)" using a by (simp only: of_nat_less_iff)
  then have "uint w < 2 ^ 31" by simp
  moreover have "- (2 ^ 31) \<le> uint w" by (rule order_trans [of _ 0]) simp_all
  ultimately have "signed_take_bit 31 (uint w) = uint w"
    by (rule signed_take_bit_int_eq_self [rotated])
  moreover have "sint w = signed_take_bit (LENGTH(32) - Suc 0) (uint w)"
    by (rule sint_uint)
  ultimately show ?thesis by simp
qed

lemma sint_large: "2 ^ 31 \<le> unat w \<Longrightarrow> sint w = int (unat w) - 2 ^ 32" for w :: u32
proof -
  assume a: "2 ^ 31 \<le> unat w"
  have "int (2 ^ 31) \<le> int (unat w)" using a by (simp only: of_nat_le_iff)
  then have lo: "2 ^ 31 \<le> uint w" by simp
  have hi: "uint w < 2 ^ 32" using uint_lt2p [of w] by simp
  have "(uint w - 2 ^ 31 + 2 ^ 32) mod 2 ^ 32 = (uint w - 2 ^ 31) mod 2 ^ 32"
    by (rule mod_add_self2)
  also have "\<dots> = uint w - 2 ^ 31"
    using lo hi by (intro mod_pos_pos_trivial) simp_all
  finally have "(uint w + 2 ^ 31) mod 2 ^ 32 = uint w - 2 ^ 31" by (simp add: add.commute)
  then have "signed_take_bit 31 (uint w) = uint w - 2 ^ 32"
    by (simp add: signed_take_bit_eq_take_bit_shift take_bit_eq_mod)
  moreover have "sint w = signed_take_bit (LENGTH(32) - Suc 0) (uint w)"
    by (rule sint_uint)
  ultimately show ?thesis by simp
qed

subsection \<open>C4: ack_info\<close>

text \<open>
  Claim C4, as amended. On an empty process \<open>ack_info\<close> returns \<open>-1\<close> and changes nothing.
  On a process that is not empty, a positive acknowledgment sets the state to \<open>empty\<close>
  (and the ack flag) and, when the stored transport block size is below \<open>2^31\<close>, returns
  that size; a negative acknowledgment sets the state to \<open>pending_retx\<close> (and clears the
  ack flag) and returns 0.
\<close>

theorem ack_info_result:
  "(harq_empty h \<longrightarrow> ack_info h 0 ack = Some (- 1, h))
   \<and> (\<not> harq_empty h \<longrightarrow>
        map_option snd (ack_info h 0 True)
          = Some (h\<lparr>tb := (tb h)\<lparr>ack_state := True, state := empty\<rparr>\<rparr>))
   \<and> (\<not> harq_empty h \<and> unat (tbs (tb h)) < 2 ^ 31 \<longrightarrow>
        map_option fst (ack_info h 0 True) = Some (int (unat (tbs (tb h)))))
   \<and> (\<not> harq_empty h \<longrightarrow>
        ack_info h 0 False
          = Some (0, h\<lparr>tb := (tb h)\<lparr>ack_state := False, state := pending_retx\<rparr>\<rparr>))"
  by (simp add: ack_info_def harq_empty_def sint_small)

text \<open>
  An empty process, and a process with the size set to 1500, acknowledged and not.
\<close>

theorem ack_info_result_witness:
  "harq_empty (harq_init 0)
   \<and> ack_info (harq_init 0) 0 True = Some (- 1, harq_init 0)
   \<and> \<not> harq_empty (snd (set_tbs (sent 4) 1500))
   \<and> unat (tbs (tb (snd (set_tbs (sent 4) 1500)))) < 2 ^ 31
   \<and> map_option fst (ack_info (snd (set_tbs (sent 4) 1500)) 0 True) = Some 1500
   \<and> map_option (\<lambda>r. state (tb (snd r))) (ack_info (snd (set_tbs (sent 4) 1500)) 0 True)
       = Some empty
   \<and> map_option fst (ack_info (snd (set_tbs (sent 4) 1500)) 0 False) = Some 0
   \<and> map_option (\<lambda>r. state (tb (snd r))) (ack_info (snd (set_tbs (sent 4) 1500)) 0 False)
       = Some pending_retx"
proof -
  let ?h = "snd (set_tbs (sent 4) 1500)"
  have e: "harq_empty (harq_init 0)" by (simp add: harq_empty_def harq_init_def)
  have h: "\<not> harq_empty ?h" "tbs (tb ?h) = 1500"
    by (simp_all add: set_tbs_def harq_empty_def nof_retx_def sent_fields)
  have hs: "unat (tbs (tb ?h)) < 2 ^ 31" "int (unat (tbs (tb ?h))) = 1500"
    by (simp_all only: h) simp_all
  from ack_info_result [of "harq_init 0" True] e
  have 1: "ack_info (harq_init 0) 0 True = Some (- 1, harq_init 0)" by blast
  from ack_info_result [of ?h] h(1) hs
  have 2: "map_option snd (ack_info ?h 0 True)
        = Some (?h\<lparr>tb := (tb ?h)\<lparr>ack_state := True, state := empty\<rparr>\<rparr>)"
    and 3: "map_option fst (ack_info ?h 0 True) = Some 1500"
    and 4: "ack_info ?h 0 False
        = Some (0, ?h\<lparr>tb := (tb ?h)\<lparr>ack_state := False, state := pending_retx\<rparr>\<rparr>)"
    by simp_all
  from 2 have 5: "map_option (\<lambda>r. state (tb (snd r))) (ack_info ?h 0 True) = Some empty"
    by (cases "ack_info ?h 0 True") auto
  show ?thesis
    using e 1 h(1) hs(1) 3 5 by (simp add: 4)
qed

text \<open>
  The claim as written, that the value returned is the size that was set, fails for a
  size of \<open>2^32 - 1\<close>, which \<open>set_tbs\<close> accepts: the positive acknowledgment returns
  \<open>-1\<close>, the value that reports failure on an empty process.
\<close>

theorem ack_info_counterexample:
  "fst (set_tbs (sent 4) 4294967295)
   \<and> \<not> harq_empty (snd (set_tbs (sent 4) 4294967295))
   \<and> unat (tbs (tb (snd (set_tbs (sent 4) 4294967295)))) = 4294967295
   \<and> map_option fst (ack_info (snd (set_tbs (sent 4) 4294967295)) 0 True) = Some (- 1)
   \<and> map_option fst (ack_info (snd (set_tbs (sent 4) 4294967295)) 0 True)
       \<noteq> Some (int (unat (tbs (tb (snd (set_tbs (sent 4) 4294967295))))))"
  by (simp add: set_tbs_def ack_info_def harq_empty_def nof_retx_def sent_fields)

subsection \<open>C5: new_slot before the ack slot\<close>

text \<open>
  Claim C5. On an empty process \<open>new_slot\<close> changes nothing, so calling it again changes
  nothing either. On a process in \<open>waiting_ack\<close> whose expected ack slot has not come
  (\<open>slot_rx < slot_ack\<close>) it changes nothing: the process is not taken from
  \<open>waiting_ack\<close> to \<open>empty\<close> before its ack slot.
\<close>

theorem new_slot_noop:
  "(harq_empty h \<longrightarrow> new_slot ops h rx = h \<and> new_slot ops (new_slot ops h rx) rx' = new_slot ops h rx)
   \<and> (state (tb h) = waiting_ack \<and> slot_lt ops rx (slot_ack h) \<longrightarrow>
        new_slot ops h rx = h \<and> state (tb (new_slot ops h rx)) \<noteq> empty)"
  by (simp add: new_slot_def harq_empty_def)

text \<open>A fresh process at slots 14 and 15; a transmission awaiting slot 14, at slot 13.\<close>

theorem new_slot_noop_witness:
  "harq_empty (harq_init 0) \<and> new_slot nat_slots (harq_init 0) 14 = harq_init 0
   \<and> new_slot nat_slots (new_slot nat_slots (harq_init 0) 14) 15
       = new_slot nat_slots (harq_init 0) 14
   \<and> state (tb (sent 0)) = waiting_ack \<and> slot_lt nat_slots 13 (slot_ack (sent 0))
   \<and> new_slot nat_slots (sent 0) 13 = sent 0
   \<and> state (tb (new_slot nat_slots (sent 0) 13)) \<noteq> empty"
proof -
  have e: "harq_empty (harq_init 0)" by (simp add: harq_empty_def harq_init_def)
  have w: "state (tb (sent 0)) = waiting_ack" by (rule sent_fields)
  have l: "slot_lt nat_slots 13 (slot_ack (sent 0))" by (simp add: sent_fields nat_slots_def)
  show ?thesis
    using new_slot_noop [of "harq_init 0" nat_slots 14 15] new_slot_noop [of "sent 0" nat_slots 13]
      e w l by blast
qed

subsection \<open>C6: the shape check of new_retx\<close>

text \<open>
  Claim C6. \<open>new_retx\<close> with a grant whose shape differs from that of the stored grant
  (another allocation type, another number of RBGs for type 0, another length for
  type 1) returns false and leaves the whole process as it was, in \<open>pending_retx\<close> as in
  any other state.
\<close>

theorem new_retx_shape_mismatch:
  "spec_shape_differs grant (prbs h) \<Longrightarrow> new_retx_grant h tx ack grant = (False, h)"
  by (cases grant; cases "prbs h") (simp_all add: new_retx_grant_def is_alloc_type1_def)

text \<open>
  The process in \<open>pending_retx\<close> after the missed acknowledgment, with a stored type-1
  grant of ten PRBs: a type-1 grant of nine PRBs and a type-0 grant are both refused.
\<close>

theorem new_retx_shape_mismatch_witness:
  "state (tb timed_out) = pending_retx
   \<and> spec_shape_differs (alloc_type1 0 9) (prbs timed_out)
   \<and> new_retx_grant timed_out 18 22 (alloc_type1 0 9) = (False, timed_out)
   \<and> spec_shape_differs (alloc_type0 [True, True]) (prbs timed_out)
   \<and> new_retx_grant timed_out 18 22 (alloc_type0 [True, True]) = (False, timed_out)"
proof -
  have p: "state (tb timed_out) = pending_retx" by (rule timed_out_fields)
  have a: "spec_shape_differs (alloc_type1 0 9) (prbs timed_out)"
    and b: "spec_shape_differs (alloc_type0 [True, True]) (prbs timed_out)"
    by (simp_all add: timed_out_fields)
  show ?thesis
    using new_retx_shape_mismatch [OF a, of 18 22] new_retx_shape_mismatch [OF b, of 18 22] p a b
    by blast
qed

subsection \<open>C8: the redundancy version\<close>

text \<open>
  Claim C8. Both \<open>fill_dci\<close> functions write the redundancy version found in the table
  \<open>{0, 2, 3, 1}\<close> at the position \<open>nof_retx() mod 4\<close>. The DCI that a successful
  \<open>new_tx\<close> fills, downlink or uplink, has the count 0 and so the version 0; the DCI
  that a successful \<open>new_retx\<close> fills has the version of the count after the increment.
\<close>

theorem rv_cyclic_schedule:
  "dl_rv (dl_fill_dci ops d dci) = [0, 2, 3, 1] ! (unat (nof_retx (dl_harq d)) mod 4)
   \<and> ul_rv (ul_fill_dci h udci) = [0, 2, 3, 1] ! (unat (nof_retx h) mod 4)
   \<and> (dl_new_tx ops d tx ack g m r dci = (True, d2, dci2) \<longrightarrow>
        dl_rv dci2 = [0, 2, 3, 1] ! (unat (nof_retx (dl_harq d2)) mod 4)
        \<and> nof_retx (dl_harq d2) = 0 \<and> dl_rv dci2 = 0)
   \<and> (dl_new_retx ops d tx ack g dci = (True, d2, dci2) \<longrightarrow>
        dl_rv dci2 = [0, 2, 3, 1] ! (unat (nof_retx (dl_harq d2)) mod 4)
        \<and> nof_retx (dl_harq d2) = nof_retx (dl_harq d) + 1)
   \<and> (ul_new_tx h tx g m r udci = (True, h2, udci2) \<longrightarrow>
        ul_rv udci2 = [0, 2, 3, 1] ! (unat (nof_retx h2) mod 4)
        \<and> nof_retx h2 = 0 \<and> ul_rv udci2 = 0)
   \<and> (ul_new_retx h tx g udci = (True, h2, udci2) \<longrightarrow>
        ul_rv udci2 = [0, 2, 3, 1] ! (unat (nof_retx h2) mod 4)
        \<and> nof_retx h2 = nof_retx h + 1)"
proof (intro conjI impI)
  show "dl_rv (dl_fill_dci ops d dci) = [0, 2, 3, 1] ! (unat (nof_retx (dl_harq d)) mod 4)"
    by (rule dl_fill_dci_rv)
  show "ul_rv (ul_fill_dci h udci) = [0, 2, 3, 1] ! (unat (nof_retx h) mod 4)"
    by (rule ul_fill_dci_rv)
next
  assume a: "dl_new_tx ops d tx ack g m r dci = (True, d2, dci2)"
  from dl_new_tx_True [OF a] obtain h1 where
    h1: "new_tx (dl_harq d) tx ack g m r = (True, h1)" "d2 = d\<lparr>dl_harq := h1, pdu := []\<rparr>"
    and c: "dci2 = dl_fill_dci ops d2 dci" by blast
  from new_tx_True [OF h1(1)] h1(2) show z: "nof_retx (dl_harq d2) = 0" by simp
  show "dl_rv dci2 = [0, 2, 3, 1] ! (unat (nof_retx (dl_harq d2)) mod 4)"
    by (simp only: c dl_fill_dci_rv)
  then show "dl_rv dci2 = 0" by (simp add: z)
next
  assume a: "dl_new_retx ops d tx ack g dci = (True, d2, dci2)"
  from dl_new_retx_True [OF a] obtain h1 where
    h1: "new_retx_grant (dl_harq d) tx ack g = (True, h1)" "d2 = d\<lparr>dl_harq := h1\<rparr>"
    and c: "dci2 = dl_fill_dci ops d2 dci" by blast
  show "dl_rv dci2 = [0, 2, 3, 1] ! (unat (nof_retx (dl_harq d2)) mod 4)"
    by (simp only: c dl_fill_dci_rv)
  from new_retx_grant_True [OF h1(1)] h1(2)
  show "nof_retx (dl_harq d2) = nof_retx (dl_harq d) + 1" by (simp add: nof_retx_def)
next
  assume a: "ul_new_tx h tx g m r udci = (True, h2, udci2)"
  from ul_new_tx_True [OF a] have h1: "new_tx h tx tx g m r = (True, h2)"
    and c: "udci2 = ul_fill_dci h2 udci" by blast+
  from new_tx_True [OF h1] show z: "nof_retx h2 = 0" by simp
  show "ul_rv udci2 = [0, 2, 3, 1] ! (unat (nof_retx h2) mod 4)"
    by (simp only: c ul_fill_dci_rv)
  then show "ul_rv udci2 = 0" by (simp add: z)
next
  assume a: "ul_new_retx h tx g udci = (True, h2, udci2)"
  from ul_new_retx_True [OF a] have h1: "new_retx_grant h tx tx g = (True, h2)"
    and c: "udci2 = ul_fill_dci h2 udci" by blast+
  show "ul_rv udci2 = [0, 2, 3, 1] ! (unat (nof_retx h2) mod 4)"
    by (simp only: c ul_fill_dci_rv)
  from new_retx_grant_True [OF h1]
  show "nof_retx h2 = nof_retx h + 1" by (simp add: nof_retx_def)
qed

text \<open>
  First transmissions, with version 0, and first retransmissions, with version 2, on a
  downlink and an uplink process.
\<close>

theorem rv_cyclic_schedule_witness:
  "fst (dl_new_tx nat_slots dl_init 10 14 (alloc_type1 0 10) 5 4 dci_dl_stale)
   \<and> dl_rv (snd (snd (dl_new_tx nat_slots dl_init 10 14 (alloc_type1 0 10) 5 4 dci_dl_stale))) = 0
   \<and> fst (dl_new_retx nat_slots dl_timed_out 18 22 (alloc_type1 5 15) dci_dl_stale)
   \<and> dl_rv (snd (snd (dl_new_retx nat_slots dl_timed_out 18 22 (alloc_type1 5 15) dci_dl_stale))) = 2
   \<and> fst (ul_new_tx (harq_init 0) 10 (alloc_type1 0 10) 5 4 dci_ul_stale)
   \<and> ul_rv (snd (snd (ul_new_tx (harq_init 0) 10 (alloc_type1 0 10) 5 4 dci_ul_stale))) = 0
   \<and> fst (ul_new_retx timed_out 18 (alloc_type1 5 15) dci_ul_stale)
   \<and> ul_rv (snd (snd (ul_new_retx timed_out 18 (alloc_type1 5 15) dci_ul_stale))) = 2"
proof -
  let ?a = "dl_new_tx nat_slots dl_init 10 14 (alloc_type1 0 10) 5 4 dci_dl_stale"
  let ?b = "dl_new_retx nat_slots dl_timed_out 18 22 (alloc_type1 5 15) dci_dl_stale"
  let ?c = "ul_new_tx (harq_init 0) 10 (alloc_type1 0 10) 5 4 dci_ul_stale"
  let ?d = "ul_new_retx timed_out 18 (alloc_type1 5 15) dci_ul_stale"
  have fa: "fst ?a" by (simp add: dl_sent_eq(1))
  note fb = dl_retx_eq and fc = ul_sent_eq and fd = ul_retx_eq
  have n0: "nof_retx (dl_harq dl_timed_out) = 0" "nof_retx timed_out = 0"
    by (simp_all add: nof_retx_def dl_timed_out_eq timed_out_fields)
  from rv_cyclic_schedule [where ops = nat_slots and d = dl_init and dci = dci_dl_stale
      and tx = 10 and ack = 14 and g = "alloc_type1 0 10" and m = 5 and r = 4
      and ?d2.0 = "fst (snd ?a)" and ?dci2.0 = "snd (snd ?a)"] triple_collapse [OF fa]
  have 1: "dl_rv (snd (snd ?a)) = 0" by blast
  from rv_cyclic_schedule [where ops = nat_slots and d = dl_timed_out and dci = dci_dl_stale
      and tx = 18 and ack = 22 and g = "alloc_type1 5 15"
      and ?d2.0 = "fst (snd ?b)" and ?dci2.0 = "snd (snd ?b)"] triple_collapse [OF fb]
  have "dl_rv (snd (snd ?b)) = [0, 2, 3, 1] ! (unat (nof_retx (dl_harq dl_timed_out) + 1) mod 4)"
    by metis
  then have 2: "dl_rv (snd (snd ?b)) = 2" by (simp add: n0)
  from rv_cyclic_schedule [where h = "harq_init 0" and udci = dci_ul_stale
      and tx = 10 and g = "alloc_type1 0 10" and m = 5 and r = 4
      and ?h2.0 = "fst (snd ?c)" and ?udci2.0 = "snd (snd ?c)"] triple_collapse [OF fc]
  have 3: "ul_rv (snd (snd ?c)) = 0" by blast
  from rv_cyclic_schedule [where h = timed_out and udci = dci_ul_stale
      and tx = 18 and g = "alloc_type1 5 15"
      and ?h2.0 = "fst (snd ?d)" and ?udci2.0 = "snd (snd ?d)"] triple_collapse [OF fd]
  have "ul_rv (snd (snd ?d)) = [0, 2, 3, 1] ! (unat (nof_retx timed_out + 1) mod 4)"
    by metis
  then have 4: "ul_rv (snd (snd ?d)) = 2" by (simp add: n0)
  show ?thesis using fa fb fc fd 1 2 3 4 by blast
qed

subsection \<open>C9: what a retransmission changes\<close>

text \<open>The new-data indicator under each operation, and in the DCI.\<close>

lemma ndi_kept:
  "ndi (tb (snd (new_retx h tx ack))) = ndi (tb h)"
  "ndi (tb (snd (new_retx_grant h tx ack g))) = ndi (tb h)"
  "ndi (tb (new_slot ops h rx)) = ndi (tb h)"
  "map_option (\<lambda>r. ndi (tb (snd r))) (ack_info h i a) = map_option (\<lambda>r. ndi (tb h)) (ack_info h i a)"
  "ndi (tb (reset h)) = ndi (tb h)"
  "ndi (tb (snd (set_tbs h t))) = ndi (tb h)"
  "ndi (tb (snd (set_mcs h m))) = ndi (tb h)"
  by (simp_all add: new_retx_def new_retx_grant_def new_slot_def ack_info_def reset_def
      set_tbs_def set_mcs_def Let_def)

lemma ndi_new_tx:
  "ndi (tb (snd (new_tx h tx ack g m r))) = (if harq_empty h then \<not> ndi (tb h) else ndi (tb h))"
  by (simp add: new_tx_def reset_def Let_def)

lemma dl_fill_dci_ndi: "dl_ndi (dl_fill_dci ops d dci) = ndi (tb (dl_harq d))"
  by (simp add: dl_fill_dci_def Let_def)

lemma ul_fill_dci_ndi: "ul_ndi (ul_fill_dci h dci) = ndi (tb h)"
  by (simp add: ul_fill_dci_def)

lemma pair_collapse: "fst x \<Longrightarrow> x = (True, snd x)"
  by (cases x) simp

text \<open>
  Claim C9. A successful \<open>new_retx\<close>, which needs the state \<open>pending_retx\<close>, changes
  \<open>slot_tx\<close>, \<open>slot_ack\<close>, the state (to \<open>waiting_ack\<close>), the ack flag (to false) and
  the retransmission counter (plus one, in 32-bit arithmetic), and with a grant the
  stored grant; the new-data indicator, the MCS, the transport block size and the budget
  stay as they were. No operation but a successful \<open>new_tx\<close> changes the new-data
  indicator, and that one negates it: the DCI filled by a retransmission carries the
  indicator of the transmission before it, the DCI of a new transmission the negated one.
\<close>

theorem new_retx_frame:
  "(new_retx h tx ack = (True, h2) \<longrightarrow>
      h2 = h\<lparr>slot_tx := tx, slot_ack := ack,
               tb := (tb h)\<lparr>state := waiting_ack, ack_state := False,
                            n_rtx := n_rtx (tb h) + 1\<rparr>\<rparr>
      \<and> ndi (tb h2) = ndi (tb h) \<and> mcs (tb h2) = mcs (tb h) \<and> tbs (tb h2) = tbs (tb h)
      \<and> max_retx h2 = max_retx h \<and> prbs h2 = prbs h \<and> pid h2 = pid h)
   \<and> (new_retx_grant h tx ack g = (True, h3) \<longrightarrow>
      h3 = h\<lparr>slot_tx := tx, slot_ack := ack, prbs := g,
               tb := (tb h)\<lparr>state := waiting_ack, ack_state := False,
                            n_rtx := n_rtx (tb h) + 1\<rparr>\<rparr>
      \<and> ndi (tb h3) = ndi (tb h) \<and> mcs (tb h3) = mcs (tb h) \<and> tbs (tb h3) = tbs (tb h)
      \<and> max_retx h3 = max_retx h \<and> pid h3 = pid h)
   \<and> (state (tb h) = pending_retx \<longrightarrow> fst (new_retx h tx ack))
   \<and> ndi (tb (snd (new_retx h tx ack))) = ndi (tb h)
   \<and> ndi (tb (snd (new_retx_grant h tx ack g))) = ndi (tb h)
   \<and> ndi (tb (new_slot ops h rx)) = ndi (tb h)
   \<and> map_option (\<lambda>r. ndi (tb (snd r))) (ack_info h i a)
       = map_option (\<lambda>r. ndi (tb h)) (ack_info h i a)
   \<and> ndi (tb (reset h)) = ndi (tb h)
   \<and> ndi (tb (snd (set_tbs h t))) = ndi (tb h)
   \<and> ndi (tb (snd (set_mcs h m))) = ndi (tb h)
   \<and> ndi (tb (snd (new_tx h tx ack g m r))) = (if harq_empty h then \<not> ndi (tb h) else ndi (tb h))
   \<and> (dl_new_retx ops d tx ack g dci = (True, d2, dci2) \<longrightarrow> dl_ndi dci2 = ndi (tb (dl_harq d)))
   \<and> (dl_new_tx ops d tx ack g m r dci = (True, d3, dci3) \<longrightarrow>
        dl_ndi dci3 = (\<not> ndi (tb (dl_harq d))))
   \<and> (ul_new_retx h tx g udci = (True, h4, udci4) \<longrightarrow> ul_ndi udci4 = ndi (tb h))
   \<and> (ul_new_tx h tx g m r udci = (True, h5, udci5) \<longrightarrow> ul_ndi udci5 = (\<not> ndi (tb h)))"
proof (intro conjI impI)
  assume a: "new_retx h tx ack = (True, h2)"
  from new_retx_True [OF a]
  show e: "h2 = h\<lparr>slot_tx := tx, slot_ack := ack,
               tb := (tb h)\<lparr>state := waiting_ack, ack_state := False,
                            n_rtx := n_rtx (tb h) + 1\<rparr>\<rparr>" by blast
  show "ndi (tb h2) = ndi (tb h)" "mcs (tb h2) = mcs (tb h)" "tbs (tb h2) = tbs (tb h)"
    "max_retx h2 = max_retx h" "prbs h2 = prbs h" "pid h2 = pid h"
    by (simp_all add: e)
next
  assume a: "new_retx_grant h tx ack g = (True, h3)"
  from new_retx_grant_True [OF a]
  show e: "h3 = h\<lparr>slot_tx := tx, slot_ack := ack, prbs := g,
               tb := (tb h)\<lparr>state := waiting_ack, ack_state := False,
                            n_rtx := n_rtx (tb h) + 1\<rparr>\<rparr>" by blast
  show "ndi (tb h3) = ndi (tb h)" "mcs (tb h3) = mcs (tb h)" "tbs (tb h3) = tbs (tb h)"
    "max_retx h3 = max_retx h" "pid h3 = pid h"
    by (simp_all add: e)
next
  assume "state (tb h) = pending_retx"
  then show "fst (new_retx h tx ack)" by (simp add: new_retx_def)
next
  show "ndi (tb (snd (new_retx h tx ack))) = ndi (tb h)"
    "ndi (tb (snd (new_retx_grant h tx ack g))) = ndi (tb h)"
    "ndi (tb (new_slot ops h rx)) = ndi (tb h)"
    "map_option (\<lambda>r. ndi (tb (snd r))) (ack_info h i a)
       = map_option (\<lambda>r. ndi (tb h)) (ack_info h i a)"
    "ndi (tb (reset h)) = ndi (tb h)"
    "ndi (tb (snd (set_tbs h t))) = ndi (tb h)"
    "ndi (tb (snd (set_mcs h m))) = ndi (tb h)"
    by (rule ndi_kept)+
  show "ndi (tb (snd (new_tx h tx ack g m r))) = (if harq_empty h then \<not> ndi (tb h) else ndi (tb h))"
    by (rule ndi_new_tx)
next
  assume a: "dl_new_retx ops d tx ack g dci = (True, d2, dci2)"
  from dl_new_retx_True [OF a] obtain h1 where
    h1: "new_retx_grant (dl_harq d) tx ack g = (True, h1)" "d2 = d\<lparr>dl_harq := h1\<rparr>"
    and c: "dci2 = dl_fill_dci ops d2 dci" by blast
  from ndi_kept(2) [of "dl_harq d" tx ack g] h1 have "ndi (tb (dl_harq d2)) = ndi (tb (dl_harq d))"
    by simp
  then show "dl_ndi dci2 = ndi (tb (dl_harq d))" by (simp add: c dl_fill_dci_ndi)
next
  assume a: "dl_new_tx ops d tx ack g m r dci = (True, d3, dci3)"
  from dl_new_tx_True [OF a] obtain h1 where
    h1: "new_tx (dl_harq d) tx ack g m r = (True, h1)" "d3 = d\<lparr>dl_harq := h1, pdu := []\<rparr>"
    and c: "dci3 = dl_fill_dci ops d3 dci" by blast
  from new_tx_True [OF h1(1)] h1(2) have "ndi (tb (dl_harq d3)) = (\<not> ndi (tb (dl_harq d)))"
    by simp
  then show "dl_ndi dci3 = (\<not> ndi (tb (dl_harq d)))" by (simp add: c dl_fill_dci_ndi)
next
  assume a: "ul_new_retx h tx g udci = (True, h4, udci4)"
  from ul_new_retx_True [OF a] have h1: "new_retx_grant h tx tx g = (True, h4)"
    and c: "udci4 = ul_fill_dci h4 udci" by blast+
  from ndi_kept(2) [of h tx tx g] h1 have "ndi (tb h4) = ndi (tb h)" by simp
  then show "ul_ndi udci4 = ndi (tb h)" by (simp add: c ul_fill_dci_ndi)
next
  assume a: "ul_new_tx h tx g m r udci = (True, h5, udci5)"
  from ul_new_tx_True [OF a] have h1: "new_tx h tx tx g m r = (True, h5)"
    and c: "udci5 = ul_fill_dci h5 udci" by blast+
  from new_tx_True [OF h1] have "ndi (tb h5) = (\<not> ndi (tb h))" by simp
  then show "ul_ndi udci5 = (\<not> ndi (tb h))" by (simp add: c ul_fill_dci_ndi)
qed

text \<open>
  The process whose acknowledgment was missed at slot 14, retransmitted at slot 18 with
  and without a grant, on the downlink and on the uplink; and the first transmissions.
\<close>

theorem new_retx_frame_witness:
  "state (tb timed_out) = pending_retx
   \<and> fst (new_retx timed_out 18 22)
   \<and> snd (new_retx timed_out 18 22)
       = timed_out\<lparr>slot_tx := 18, slot_ack := 22,
                    tb := (tb timed_out)\<lparr>state := waiting_ack, ack_state := False,
                                         n_rtx := n_rtx (tb timed_out) + 1\<rparr>\<rparr>
   \<and> ndi (tb (snd (new_retx timed_out 18 22))) = ndi (tb timed_out)
   \<and> mcs (tb (snd (new_retx timed_out 18 22))) = mcs (tb timed_out)
   \<and> tbs (tb (snd (new_retx timed_out 18 22))) = tbs (tb timed_out)
   \<and> max_retx (snd (new_retx timed_out 18 22)) = max_retx timed_out
   \<and> fst (new_retx_grant timed_out 18 22 (alloc_type1 5 15))
   \<and> snd (new_retx_grant timed_out 18 22 (alloc_type1 5 15))
       = timed_out\<lparr>slot_tx := 18, slot_ack := 22, prbs := alloc_type1 5 15,
                    tb := (tb timed_out)\<lparr>state := waiting_ack, ack_state := False,
                                         n_rtx := n_rtx (tb timed_out) + 1\<rparr>\<rparr>
   \<and> fst (dl_new_retx nat_slots dl_timed_out 18 22 (alloc_type1 5 15) dci_dl_stale)
   \<and> dl_ndi (snd (snd (dl_new_retx nat_slots dl_timed_out 18 22 (alloc_type1 5 15) dci_dl_stale)))
       = ndi (tb (dl_harq dl_timed_out))
   \<and> fst (ul_new_retx timed_out 18 (alloc_type1 5 15) dci_ul_stale)
   \<and> ul_ndi (snd (snd (ul_new_retx timed_out 18 (alloc_type1 5 15) dci_ul_stale)))
       = ndi (tb timed_out)
   \<and> fst (dl_new_tx nat_slots dl_init 10 14 (alloc_type1 0 10) 5 4 dci_dl_stale)
   \<and> dl_ndi (snd (snd (dl_new_tx nat_slots dl_init 10 14 (alloc_type1 0 10) 5 4 dci_dl_stale)))
       = (\<not> ndi (tb (dl_harq dl_init)))
   \<and> fst (ul_new_tx (harq_init 0) 10 (alloc_type1 0 10) 5 4 dci_ul_stale)
   \<and> ul_ndi (snd (snd (ul_new_tx (harq_init 0) 10 (alloc_type1 0 10) 5 4 dci_ul_stale)))
       = (\<not> ndi (tb (harq_init 0)))"
proof -
  let ?r = "new_retx timed_out 18 22"
  let ?g = "new_retx_grant timed_out 18 22 (alloc_type1 5 15)"
  let ?a = "dl_new_tx nat_slots dl_init 10 14 (alloc_type1 0 10) 5 4 dci_dl_stale"
  let ?b = "dl_new_retx nat_slots dl_timed_out 18 22 (alloc_type1 5 15) dci_dl_stale"
  let ?c = "ul_new_tx (harq_init 0) 10 (alloc_type1 0 10) 5 4 dci_ul_stale"
  let ?d = "ul_new_retx timed_out 18 (alloc_type1 5 15) dci_ul_stale"
  have p: "state (tb timed_out) = pending_retx" by (rule timed_out_fields)
  have fr: "fst ?r" by (simp add: new_retx_def p)
  have fg: "fst ?g"
    by (simp add: new_retx_grant_def new_retx_def is_alloc_type1_def timed_out_fields)
  have fa: "fst ?a" by (simp add: dl_sent_eq(1))
  note fb = dl_retx_eq and fc = ul_sent_eq and fd = ul_retx_eq
  note retx = new_retx_frame [where h = timed_out and tx = 18 and ack = 22
      and g = "alloc_type1 5 15" and ops = nat_slots and d = dl_timed_out
      and dci = dci_dl_stale and udci = dci_ul_stale
      and ?h2.0 = "snd ?r" and ?h3.0 = "snd ?g"
      and ?d2.0 = "fst (snd ?b)" and ?dci2.0 = "snd (snd ?b)"
      and ?h4.0 = "fst (snd ?d)" and ?udci4.0 = "snd (snd ?d)"]
  note tx = new_retx_frame [where h = "harq_init 0" and tx = 10 and ack = 14
      and g = "alloc_type1 0 10" and m = 5 and r = 4 and ops = nat_slots and d = dl_init
      and dci = dci_dl_stale and udci = dci_ul_stale
      and ?d3.0 = "fst (snd ?a)" and ?dci3.0 = "snd (snd ?a)"
      and ?h5.0 = "fst (snd ?c)" and ?udci5.0 = "snd (snd ?c)"]
  from retx [THEN conjunct1, THEN mp, OF pair_collapse [OF fr]]
  have 1: "snd ?r = timed_out\<lparr>slot_tx := 18, slot_ack := 22,
                    tb := (tb timed_out)\<lparr>state := waiting_ack, ack_state := False,
                                         n_rtx := n_rtx (tb timed_out) + 1\<rparr>\<rparr>"
    and 2: "ndi (tb (snd ?r)) = ndi (tb timed_out)" "mcs (tb (snd ?r)) = mcs (tb timed_out)"
      "tbs (tb (snd ?r)) = tbs (tb timed_out)" "max_retx (snd ?r) = max_retx timed_out"
    by blast+
  from retx [THEN conjunct2, THEN conjunct1, THEN mp, OF pair_collapse [OF fg]]
  have 3: "snd ?g = timed_out\<lparr>slot_tx := 18, slot_ack := 22, prbs := alloc_type1 5 15,
                    tb := (tb timed_out)\<lparr>state := waiting_ack, ack_state := False,
                                         n_rtx := n_rtx (tb timed_out) + 1\<rparr>\<rparr>"
    by blast
  have 4: "dl_ndi (snd (snd ?b)) = ndi (tb (dl_harq dl_timed_out))"
    by (rule retx [THEN conjunct2, THEN conjunct2, THEN conjunct2, THEN conjunct2, THEN conjunct2, THEN conjunct2, THEN conjunct2, THEN conjunct2, THEN conjunct2, THEN conjunct2, THEN conjunct2, THEN conjunct1, THEN mp, OF triple_collapse [OF fb]])
  have 5: "ul_ndi (snd (snd ?d)) = ndi (tb timed_out)"
    by (rule retx [THEN conjunct2, THEN conjunct2, THEN conjunct2, THEN conjunct2, THEN conjunct2, THEN conjunct2, THEN conjunct2, THEN conjunct2, THEN conjunct2, THEN conjunct2, THEN conjunct2, THEN conjunct2, THEN conjunct2, THEN conjunct1, THEN mp, OF triple_collapse [OF fd]])
  have 6: "dl_ndi (snd (snd ?a)) = (\<not> ndi (tb (dl_harq dl_init)))"
    by (rule tx [THEN conjunct2, THEN conjunct2, THEN conjunct2, THEN conjunct2, THEN conjunct2, THEN conjunct2, THEN conjunct2, THEN conjunct2, THEN conjunct2, THEN conjunct2, THEN conjunct2, THEN conjunct2, THEN conjunct1, THEN mp, OF triple_collapse [OF fa]])
  have 7: "ul_ndi (snd (snd ?c)) = (\<not> ndi (tb (harq_init 0)))"
    by (rule tx [THEN conjunct2, THEN conjunct2, THEN conjunct2, THEN conjunct2, THEN conjunct2, THEN conjunct2, THEN conjunct2, THEN conjunct2, THEN conjunct2, THEN conjunct2, THEN conjunct2, THEN conjunct2, THEN conjunct2, THEN conjunct2, THEN mp, OF triple_collapse [OF fc]])
  show ?thesis
    by (intro conjI; fact)
qed

subsection \<open>C10: the transport block size after new_tx\<close>

text \<open>
  Claim C10. After a successful \<open>new_tx\<close>, before any \<open>set_tbs\<close>, the stored transport
  block size is 0. A positive \<open>ack_info\<close> at that point empties the process and
  returns 0.
\<close>

theorem new_tx_tbs_zero:
  "harq_empty h \<Longrightarrow>
     fst (new_tx h tx ack g m r)
     \<and> tbs (tb (snd (new_tx h tx ack g m r))) = 0
     \<and> map_option fst (ack_info (snd (new_tx h tx ack g m r)) 0 True) = Some 0
     \<and> map_option (\<lambda>r. harq_empty (snd r)) (ack_info (snd (new_tx h tx ack g m r)) 0 True)
         = Some True"
  by (simp add: new_tx_def reset_def ack_info_def harq_empty_def Let_def)

text \<open>A first transmission on a fresh process, acknowledged at once.\<close>

theorem new_tx_tbs_zero_witness:
  "harq_empty (harq_init 0)
   \<and> fst (new_tx (harq_init 0) 10 14 (alloc_type1 0 10) 5 4)
   \<and> tbs (tb (snd (new_tx (harq_init 0) 10 14 (alloc_type1 0 10) 5 4))) = 0
   \<and> map_option fst (ack_info (snd (new_tx (harq_init 0) 10 14 (alloc_type1 0 10) 5 4)) 0 True)
       = Some 0
   \<and> map_option (\<lambda>r. harq_empty (snd r))
        (ack_info (snd (new_tx (harq_init 0) 10 14 (alloc_type1 0 10) 5 4)) 0 True) = Some True"
proof -
  have e: "harq_empty (harq_init 0)" by (simp add: harq_empty_def harq_init_def)
  show ?thesis
    using new_tx_tbs_zero [OF e, of 10 14 "alloc_type1 0 10" 5 4] e by blast
qed

section \<open>Properties of the event lists\<close>

subsection \<open>Events and buffers along a run\<close>












subsection \<open>C7: an event enqueued during a slot\<close>



end
